theory Spec2Isabelle
  imports Complex_Main
begin

section \<open>JavaScript values\<close>

text \<open>
  The backend is JavaScript on top of a document store. A \<^verbatim>\<open>Number\<close> that holds
  an amount is modelled as an exact real (the rounding of IEEE doubles is not modelled), a
  \<^verbatim>\<open>Date\<close> as its \<^verbatim>\<open>getTime()\<close> value, the milliseconds since
  the epoch, and a document id as a natural number.

  \<^verbatim>\<open>save()\<close> validates the document, runs the \<^verbatim>\<open>pre('save')\<close> hooks
  in the order they are registered and stores the schema's paths; the document library registers
  validation, and the time stamps of a schema with \<^verbatim>\<open>timestamps: true\<close>, ahead of
  the hooks a schema adds itself. A document that fails validation is not stored and
  \<^verbatim>\<open>save()\<close> throws, which every handler answers with 500. Validation is
  modelled for the new booking of \<^verbatim>\<open>createBooking\<close>, whose required booking
  number the handler never sets. A document read from the store passed validation when it was
  written, and the requests of the order routes are taken to carry values the order schema
  accepts.
\<close>

type_synonym number = real
type_synonym date = int
type_synonym objectId = nat

text \<open>\<^verbatim>\<open>x || d\<close> on a number: \<^verbatim>\<open>0\<close> is falsy.\<close>

definition js_or :: "number \<Rightarrow> number \<Rightarrow> number" where
  "js_or x d = (if x = 0 then d else x)"

text \<open>
  The value of a property read: a document that has no such property gives
  \<^verbatim>\<open>undefined\<close>, arithmetic on \<^verbatim>\<open>undefined\<close> gives
  \<^verbatim>\<open>NaN\<close>, and every comparison with either is false.
\<close>

datatype jsnum = Undefined | NaN | Num number

fun js_less :: "jsnum \<Rightarrow> number \<Rightarrow> bool" where
  "js_less (Num x) c = (x < c)"
| "js_less _ c = False"

text \<open>\<^verbatim>\<open>Math.ceil(ms / (1000 * 3600 * 24))\<close> on a difference of two dates.\<close>

definition ms_per_day :: int where
  "ms_per_day = 1000 * 3600 * 24"

definition nights_between :: "date \<Rightarrow> date \<Rightarrow> int" where
  "nights_between checkIn checkOut = \<lceil>real_of_int (checkOut - checkIn) / real_of_int ms_per_day\<rceil>"

section \<open>Bookings (models/Booking.js)\<close>

datatype booking_status = Confirmed | CheckedIn | CheckedOut | Cancelled | NoShow

datatype payment_status = PaymentPending | Paid | PartiallyPaid | Refunded | PaymentFailed

record package_snapshot =
  snap_id :: objectId
  snap_name :: string
  snap_description :: string
  snap_price :: number

record service_line =
  serviceId :: objectId
  serviceName :: string
  serviceType :: string
  svc_price :: number
  svc_quantity :: number
  scheduledDate :: "date option"
  scheduledTime :: "string option"

record food_item =
  fi_menuItemId :: objectId
  fi_quantity :: number
  fi_price :: number

record food_order =
  fo_items :: "food_item list"
  fo_orderType :: string
  fo_totalAmount :: number

record pricing_rec =
  roomRate :: number
  packagePrice :: number
  servicesTotal :: number
  foodTotal :: number
  taxAmount :: number
  discountAmount :: number
  totalAmount :: number

record payment_rec =
  pay_status :: payment_status
  paidAmount :: number
  refundAmount :: number

record booking_doc =
  bookingNumber :: "string option"
  user :: objectId
  room :: objectId
  checkInDate :: date
  checkOutDate :: date
  numberOfNights :: int
  selectedPackage :: "package_snapshot option"
  additionalServices :: "service_line list"
  foodOrders :: "food_order list"
  pricing :: pricing_rec
  payment :: payment_rec
  specialRequests :: string
  status :: booking_status
  actualCheckIn :: "date option"
  actualCheckOut :: "date option"
  updatedAt :: date

text \<open>
  \<^verbatim>\<open>calculateTotal\<close>: the two \<^verbatim>\<open>reduce\<close> calls are left folds from
  \<^verbatim>\<open>0\<close>; the method overwrites four fields of the pricing sub-record.
\<close>

definition calculateTotal :: "booking_doc \<Rightarrow> booking_doc" where
  "calculateTotal this =
    (let roomTotal = roomRate (pricing this) * of_int (numberOfNights this);
         packageTotal = js_or (packagePrice (pricing this)) 0;
         servicesSum = foldl (\<lambda>sum service. sum + svc_price service * svc_quantity service) 0
                         (additionalServices this);
         foodSum = foldl (\<lambda>sum order. sum + fo_totalAmount order) 0 (foodOrders this);
         subtotal = roomTotal + packageTotal + servicesSum + foodSum;
         taxSum = subtotal * 0.18;
         discount = js_or (discountAmount (pricing this)) 0
     in this\<lparr>pricing := (pricing this)
          \<lparr>servicesTotal := servicesSum, foodTotal := foodSum,
           taxAmount := taxSum, totalAmount := subtotal + taxSum - discount\<rparr>\<rparr>)"

text \<open>
  Validation of a booking: \<^verbatim>\<open>bookingNumber\<close> is a required string, which an
  absent or empty value fails. The other required paths always hold a value in this model.
\<close>

definition booking_validate :: "booking_doc \<Rightarrow> bool" where
  "booking_validate this = (case bookingNumber this of None \<Rightarrow> False | Some n \<Rightarrow> n \<noteq> [])"

text \<open>The \<^verbatim>\<open>pre('save')\<close> hooks of the booking schema: the first sets the time
  stamp and the third the number of nights (a \<^verbatim>\<open>Date\<close> object is always truthy,
  so its guard always holds). The second would give a new document without a booking number
  one; it runs after validation, which has rejected such a document by then, so its branch is
  never entered.\<close>

definition booking_pre_save :: "date \<Rightarrow> booking_doc \<Rightarrow> booking_doc" where
  "booking_pre_save now this =
     this\<lparr>updatedAt := now,
          numberOfNights := nights_between (checkInDate this) (checkOutDate this)\<rparr>"

text \<open>\<^verbatim>\<open>save()\<close> of a new booking: \<open>None\<close> when validation rejects it.\<close>

definition booking_save_new :: "date \<Rightarrow> booking_doc \<Rightarrow> booking_doc option" where
  "booking_save_new now this =
     (if booking_validate this then Some (booking_pre_save now this) else None)"

section \<open>Packages (models/Package.js)\<close>

record season =
  season_name :: string
  season_startDate :: "date option"
  season_endDate :: "date option"
  priceModifier :: number

record package_doc =
  pkg_name :: string
  pkg_description :: string
  pkg_price :: number
  discountPercentage :: number
  seasons :: "season list"
  avail_startDate :: "date option"
  avail_endDate :: "date option"
  blackoutDates :: "date list"
  isActive :: bool

text \<open>The virtual \<^verbatim>\<open>effectivePrice\<close>.\<close>

definition effectivePrice :: "package_doc \<Rightarrow> number" where
  "effectivePrice this = pkg_price this * (1 - discountPercentage this / 100)"

text \<open>
  \<^verbatim>\<open>toDateString()\<close> prints the weekday, month, day and year of a date in local
  time, so two such strings are equal exactly when the two dates fall on the same local calendar
  day. The local time zone is a parameter: the offset from UTC, in milliseconds, in force at a
  given instant.
\<close>

type_synonym timezone = "date \<Rightarrow> int"

definition toDateString :: "timezone \<Rightarrow> date \<Rightarrow> int" where
  "toDateString tz d = (d + tz d) div ms_per_day"

text \<open>\<^verbatim>\<open>isAvailable\<close>: an unset \<^verbatim>\<open>startDate\<close> or
  \<^verbatim>\<open>endDate\<close> is \<^verbatim>\<open>undefined\<close>, hence falsy, and its test is skipped.\<close>

definition isAvailable :: "timezone \<Rightarrow> package_doc \<Rightarrow> date \<Rightarrow> bool" where
  "isAvailable tz this checkDate =
     (if \<not> isActive this then False
      else if (case avail_startDate this of Some startDate \<Rightarrow> checkDate < startDate | None \<Rightarrow> False)
        then False
      else if (case avail_endDate this of Some endDate \<Rightarrow> checkDate > endDate | None \<Rightarrow> False)
        then False
      else if list_ex (\<lambda>d. toDateString tz d = toDateString tz checkDate) (blackoutDates this)
        then False
      else True)"

text \<open>The predicate of \<^verbatim>\<open>seasons.find\<close>: a comparison with an unset bound is
  a comparison with \<^verbatim>\<open>undefined\<close> and is false.\<close>

definition in_season :: "date \<Rightarrow> season \<Rightarrow> bool" where
  "in_season checkDate s =
     (case season_startDate s of
        None \<Rightarrow> False
      | Some startDate \<Rightarrow>
          (case season_endDate s of
             None \<Rightarrow> False
           | Some endDate \<Rightarrow> checkDate \<ge> startDate \<and> checkDate \<le> endDate))"

definition getSeasonalPrice :: "package_doc \<Rightarrow> date \<Rightarrow> number" where
  "getSeasonalPrice this checkDate =
     (let found = find (in_season checkDate) (seasons this);
          basePrice = effectivePrice this
      in case found of Some s \<Rightarrow> basePrice * priceModifier s | None \<Rightarrow> basePrice)"

section \<open>Rooms and services\<close>

text \<open>
  The room schema declares no \<^verbatim>\<open>available\<close> path (it has a Boolean
  \<^verbatim>\<open>isAvailable\<close>), so the store holds no such counter: whatever a caller passes
  under that name when a room is created is dropped.
\<close>

record room_doc =
  roomNumber :: string
  room_price :: number
  isAvailable_flag :: bool
  room_updatedAt :: date

text \<open>
  The booking controller nevertheless reads and writes \<^verbatim>\<open>room.available\<close>. On a
  document of the room model the read gives \<^verbatim>\<open>undefined\<close>; an assignment sets a
  property of the object in memory that \<^verbatim>\<open>save()\<close> does not write.
\<close>

definition available :: "room_doc \<Rightarrow> jsnum" where
  "available this = Undefined"

definition room_pre_save :: "date \<Rightarrow> room_doc \<Rightarrow> room_doc" where
  "room_pre_save now this = this\<lparr>room_updatedAt := now\<rparr>"

record service_doc =
  sd_name :: string
  sd_category :: string
  sd_price :: number
  sd_isActive :: bool

section \<open>The booking controller\<close>

text \<open>
  The store holds the four collections the controller touches. A handler takes the clock
  (one reading per request), the authenticated user, the request and the store, and returns the
  response (status code and the \<^verbatim>\<open>error\<close> or \<^verbatim>\<open>message\<close> text)
  with the store after the request.
\<close>

record hotel =
  rooms :: "objectId \<rightharpoonup> room_doc"
  packages :: "objectId \<rightharpoonup> package_doc"
  services :: "objectId \<rightharpoonup> service_doc"
  bookings :: "objectId \<rightharpoonup> booking_doc"

datatype role = RoleUser | RoleStaff | RoleManager | RoleAdmin | RoleCeo

record actor =
  actor_id :: objectId
  actor_role :: role

datatype response = Response (code: nat) (body: string)

record service_choice =
  sc_serviceId :: objectId
  sc_quantity :: "number option"
  sc_scheduledDate :: "date option"
  sc_scheduledTime :: "string option"

record create_booking_req =
  roomId :: objectId
  req_checkInDate :: date
  req_checkOutDate :: date
  req_selectedPackage :: "objectId option"
  req_additionalServices :: "service_choice list"
  req_specialRequests :: string

text \<open>The package branch of \<^verbatim>\<open>createBooking\<close>: the price and the snapshot.\<close>

definition select_package ::
  "timezone \<Rightarrow> hotel \<Rightarrow> objectId option \<Rightarrow> date \<Rightarrow> number \<times> package_snapshot option" where
  "select_package tz h sel checkIn =
     (case sel of
        None \<Rightarrow> (0, None)
      | Some pid \<Rightarrow>
          (case packages h pid of
             None \<Rightarrow> (0, None)
           | Some packageObj \<Rightarrow>
               if isAvailable tz packageObj checkIn
               then (let price = getSeasonalPrice packageObj checkIn
                     in (price, Some \<lparr>snap_id = pid, snap_name = pkg_name packageObj,
                                      snap_description = pkg_description packageObj,
                                      snap_price = price\<rparr>))
               else (0, None)))"

text \<open>The loop over the requested services: unknown and inactive services are skipped.\<close>

fun price_services :: "hotel \<Rightarrow> service_choice list \<Rightarrow> service_line list" where
  "price_services h [] = []"
| "price_services h (service # rest) =
     (case services h (sc_serviceId service) of
        None \<Rightarrow> price_services h rest
      | Some serviceObj \<Rightarrow>
          if sd_isActive serviceObj
          then \<lparr>serviceId = sc_serviceId service, serviceName = sd_name serviceObj,
                serviceType = sd_category serviceObj, svc_price = sd_price serviceObj,
                svc_quantity = (case sc_quantity service of None \<Rightarrow> 1 | Some q \<Rightarrow> js_or q 1),
                scheduledDate = sc_scheduledDate service,
                scheduledTime = sc_scheduledTime service\<rparr> # price_services h rest
          else price_services h rest)"

text \<open>\<^verbatim>\<open>new Booking({...})\<close> with the schema's defaults; the handler passes no
  \<^verbatim>\<open>bookingNumber\<close>.\<close>

definition new_booking ::
  "objectId \<Rightarrow> create_booking_req \<Rightarrow> int \<Rightarrow> package_snapshot option \<Rightarrow> service_line list
     \<Rightarrow> number \<Rightarrow> number \<Rightarrow> date \<Rightarrow> booking_doc" where
  "new_booking uid req nights packageData servicesWithPricing rate pkgPrice now =
     \<lparr>bookingNumber = None, user = uid, room = roomId req,
      checkInDate = req_checkInDate req, checkOutDate = req_checkOutDate req,
      numberOfNights = nights,
      selectedPackage = packageData,
      additionalServices = servicesWithPricing,
      foodOrders = [],
      pricing = \<lparr>roomRate = rate, packagePrice = pkgPrice, servicesTotal = 0, foodTotal = 0,
                 taxAmount = 0, discountAmount = 0, totalAmount = 0\<rparr>,
      payment = \<lparr>pay_status = PaymentPending, paidAmount = 0, refundAmount = 0\<rparr>,
      specialRequests = req_specialRequests req,
      status = Confirmed, actualCheckIn = None, actualCheckOut = None,
      updatedAt = now\<rparr>"

text \<open>The document \<^verbatim>\<open>createBooking\<close> has built, after
  \<^verbatim>\<open>calculateTotal()\<close>, when it calls \<^verbatim>\<open>save()\<close> for a room
  \<open>r\<close>.\<close>

definition draft_booking ::
  "timezone \<Rightarrow> date \<Rightarrow> actor \<Rightarrow> create_booking_req \<Rightarrow> hotel \<Rightarrow> room_doc \<Rightarrow> booking_doc" where
  "draft_booking tz today usr req h r =
     (let checkIn = req_checkInDate req; checkOut = req_checkOutDate req;
          nights = nights_between checkIn checkOut;
          (pkgPrice, packageData) = select_package tz h (req_selectedPackage req) checkIn;
          servicesWithPricing = price_services h (req_additionalServices req);
          booking = new_booking (actor_id usr) req nights packageData
                      servicesWithPricing (room_price r) pkgPrice today
      in calculateTotal booking)"

text \<open>\<^verbatim>\<open>createBooking\<close>; \<open>newId\<close> is the id the store gives the new
  document. After the booking is stored the handler runs
  \<^verbatim>\<open>room.available -= 1\<close>, which the store does not see, and saves the room.\<close>

definition createBooking ::
  "timezone \<Rightarrow> date \<Rightarrow> objectId \<Rightarrow> actor \<Rightarrow> create_booking_req \<Rightarrow> hotel \<Rightarrow> response \<times> hotel" where
  "createBooking tz today newId usr req h =
     (let checkIn = req_checkInDate req; checkOut = req_checkOutDate req in
      if checkIn < today then (Response 400 ''Check-in date cannot be in the past'', h)
      else if checkOut \<le> checkIn
        then (Response 400 ''Check-out date must be after check-in date'', h)
      else
        (case rooms h (roomId req) of
           None \<Rightarrow> (Response 404 ''Room not found'', h)
         | Some r \<Rightarrow>
             if js_less (available r) 1 then (Response 400 ''Room is not available'', h)
             else
               (case booking_save_new today (draft_booking tz today usr req h r) of
                  None \<Rightarrow> (Response 500 ''Failed to create booking'', h)
                | Some saved \<Rightarrow>
                    (let h1 = h\<lparr>bookings := (bookings h)(newId \<mapsto> saved)\<rparr>
                     in (Response 201 ''Booking created successfully'',
                         h1\<lparr>rooms := (rooms h1)(roomId req \<mapsto> room_pre_save today r)\<rparr>)))))"

text \<open>\<^verbatim>\<open>cancelBooking\<close>, \<^verbatim>\<open>checkInBooking\<close> and
  \<^verbatim>\<open>checkOutBooking\<close>. A successful \<^verbatim>\<open>res.json\<close> answers 200.
  The block that restores the availability runs \<^verbatim>\<open>room.available += 1\<close>, which the
  store does not see, and saves the room: what is written is the room with its new time
  stamp.\<close>

definition release_room :: "date \<Rightarrow> objectId \<Rightarrow> hotel \<Rightarrow> hotel" where
  "release_room now rid h =
     (case rooms h rid of
        None \<Rightarrow> h
      | Some r \<Rightarrow>
          h\<lparr>rooms := (rooms h)(rid \<mapsto> room_pre_save now r)\<rparr>)"

definition cancelBooking :: "date \<Rightarrow> actor \<Rightarrow> objectId \<Rightarrow> hotel \<Rightarrow> response \<times> hotel" where
  "cancelBooking now usr bid h =
     (case bookings h bid of
        None \<Rightarrow> (Response 404 ''Booking not found'', h)
      | Some booking \<Rightarrow>
          if actor_role usr = RoleUser \<and> user booking \<noteq> actor_id usr
            then (Response 403 ''Access denied'', h)
          else if status booking \<notin> set [Confirmed, CheckedIn]
            then (Response 400 ''Booking cannot be cancelled in current status'', h)
          else
            (let saved = booking_pre_save now (booking\<lparr>status := Cancelled\<rparr>);
                 h1 = h\<lparr>bookings := (bookings h)(bid \<mapsto> saved)\<rparr>
             in (Response 200 ''Booking cancelled successfully'', release_room now (room saved) h1)))"

definition checkInBooking :: "date \<Rightarrow> objectId \<Rightarrow> hotel \<Rightarrow> response \<times> hotel" where
  "checkInBooking now bid h =
     (case bookings h bid of
        None \<Rightarrow> (Response 404 ''Booking not found'', h)
      | Some booking \<Rightarrow>
          if status booking \<noteq> Confirmed
            then (Response 400 ''Booking must be confirmed to check in'', h)
          else
            (let saved = booking_pre_save now
                           (booking\<lparr>status := CheckedIn, actualCheckIn := Some now\<rparr>)
             in (Response 200 ''Guest checked in successfully'',
                 h\<lparr>bookings := (bookings h)(bid \<mapsto> saved)\<rparr>)))"

definition checkOutBooking :: "date \<Rightarrow> objectId \<Rightarrow> hotel \<Rightarrow> response \<times> hotel" where
  "checkOutBooking now bid h =
     (case bookings h bid of
        None \<Rightarrow> (Response 404 ''Booking not found'', h)
      | Some booking \<Rightarrow>
          if status booking \<noteq> CheckedIn
            then (Response 400 ''Guest must be checked in to check out'', h)
          else
            (let saved = booking_pre_save now
                           (booking\<lparr>status := CheckedOut, actualCheckOut := Some now\<rparr>);
                 h1 = h\<lparr>bookings := (bookings h)(bid \<mapsto> saved)\<rparr>
             in (Response 200 ''Guest checked out successfully'', release_room now (room saved) h1)))"

section \<open>Orders (models/Order.js)\<close>

text \<open>The two status fields of an order hold the strings of the schema's enumerations; the
  lifecycle status of a staff update comes from the request body as it is.\<close>

record order_item =
  menuItemId :: objectId
  item_name :: string
  item_price :: number
  item_quantity :: number
  item_category :: objectId
  subtotal :: number

record customer_info =
  ci_email :: string
  ci_name :: string
  ci_roomNumber :: "string option"

record order_doc =
  orderId :: string
  customerId :: objectId
  customerInfo :: customer_info
  items :: "order_item list"
  order_totalAmount :: number
  tax :: number
  deliveryFee :: number
  finalAmount :: number
  order_status :: string
  paymentStatus :: string
  paymentIntentId :: string
  stripePaymentId :: "string option"
  transactionId :: "string option"
  deliveryType :: string
  estimatedDeliveryTime :: "date option"
  actualDeliveryTime :: "date option"
  staffNotes :: "string option"
  assignedStaff :: "objectId option"
  order_createdAt :: date
  order_updatedAt :: date

text \<open>The \<^verbatim>\<open>pre('save')\<close> hook of the order schema.\<close>

definition order_pre_save :: "order_doc \<Rightarrow> order_doc" where
  "order_pre_save this =
     (let items1 = map (\<lambda>item. item\<lparr>subtotal := item_price item * item_quantity item\<rparr>) (items this);
          total = foldl (\<lambda>total item. total + subtotal item) 0 items1
      in this\<lparr>items := items1, order_totalAmount := total,
              finalAmount := total + tax this + deliveryFee this\<rparr>)"

text \<open>
  \<^verbatim>\<open>save()\<close> of an order read from the store. The order schema sets
  \<^verbatim>\<open>timestamps: true\<close>: when an assignment has changed the document since it was
  read, \<^verbatim>\<open>updatedAt\<close> is set to the clock; then the schema's hook runs. \<open>loaded\<close>
  is the document as read, \<open>this\<close> the document with the assignments made since.
\<close>

definition order_save :: "date \<Rightarrow> order_doc \<Rightarrow> order_doc \<Rightarrow> order_doc" where
  "order_save now loaded this =
     order_pre_save (if this = loaded then this else this\<lparr>order_updatedAt := now\<rparr>)"

text \<open>The instance methods \<^verbatim>\<open>updateStatus\<close> and \<^verbatim>\<open>completePayment\<close>;
  both end in \<^verbatim>\<open>this.save()\<close>, and the result is the document as stored.\<close>

definition updateStatus :: "date \<Rightarrow> string \<Rightarrow> order_doc \<Rightarrow> order_doc" where
  "updateStatus now newStatus this =
     (let this1 = this\<lparr>order_status := newStatus\<rparr>;
          this2 = (if newStatus = ''delivered'' then this1\<lparr>actualDeliveryTime := Some now\<rparr> else this1)
      in order_save now this this2)"

definition completePayment :: "date \<Rightarrow> string \<Rightarrow> string \<Rightarrow> order_doc \<Rightarrow> order_doc" where
  "completePayment now stripeId txnId this =
     order_save now this
       (this\<lparr>paymentStatus := ''completed'', stripePaymentId := Some stripeId,
             transactionId := Some txnId, order_status := ''confirmed''\<rparr>)"

section \<open>The order routes (routes/orderRoutes.js)\<close>

record user_doc =
  email :: string
  firstName :: string
  lastName :: string

record menu_item_doc =
  mi_name :: string
  mi_price :: number
  mi_category :: objectId

text \<open>The store of the order routes: users, the menu, and the orders under their unique
  \<^verbatim>\<open>orderId\<close>.\<close>

record shop =
  users :: "objectId \<rightharpoonup> user_doc"
  menu :: "objectId \<rightharpoonup> menu_item_doc"
  orders :: "string \<rightharpoonup> order_doc"

text \<open>The payment service: \<^verbatim>\<open>createPaymentIntent\<close> answers the id and the client
  secret of the intent or throws (\<open>None\<close>); \<^verbatim>\<open>confirmPayment\<close> answers whether
  the intent succeeded.\<close>

record gateway =
  createPaymentIntent :: "number \<Rightarrow> (string \<times> string) option"
  confirmPayment :: "string \<Rightarrow> bool"

record cart_item =
  cart_id :: objectId
  cart_name :: string
  cart_quantity :: number

record intent_req =
  req_items :: "cart_item list option"
  req_totalAmount :: "number option"
  req_customerInfo :: "string option option"
  req_deliveryType :: "string option"

text \<open>The loop that looks every submitted item up in the menu: it stops with the first item
  that is not on the menu, and otherwise adds up the catalog prices.\<close>

fun price_items ::
  "(objectId \<rightharpoonup> menu_item_doc) \<Rightarrow> cart_item list \<Rightarrow> number \<Rightarrow> order_item list
     \<Rightarrow> string + (number \<times> order_item list)" where
  "price_items m [] calculatedTotal orderItems = Inr (calculatedTotal, orderItems)"
| "price_items m (item # rest) calculatedTotal orderItems =
     (case m (cart_id item) of
        None \<Rightarrow> Inl (''Menu item '' @ cart_name item @ '' not found'')
      | Some menuItem \<Rightarrow>
          (let sub = mi_price menuItem * cart_quantity item
           in price_items m rest (calculatedTotal + sub)
                (orderItems @ [\<lparr>menuItemId = cart_id item, item_name = mi_name menuItem,
                                item_price = mi_price menuItem, item_quantity = cart_quantity item,
                                item_category = mi_category menuItem, subtotal = sub\<rparr>])))"

text \<open>\<^verbatim>\<open>POST /create-payment-intent\<close>. \<open>newOrderId\<close> is the value of
  \<^verbatim>\<open>Order.generateOrderId()\<close>. \<^verbatim>\<open>Math.round\<close> rounds half up, as
  \<^const>\<open>round\<close> does. The field \<open>req_customerInfo\<close> is the room number of the
  request's \<^verbatim>\<open>customerInfo\<close>; reading it from a request without
  \<^verbatim>\<open>customerInfo\<close> throws, which the handler answers with 500.\<close>

definition create_payment_intent ::
  "gateway \<Rightarrow> date \<Rightarrow> string \<Rightarrow> objectId \<Rightarrow> intent_req \<Rightarrow> shop \<Rightarrow> response \<times> shop" where
  "create_payment_intent gw now newOrderId userId req s =
     (let deliveryType = (case req_deliveryType req of None \<Rightarrow> ''room_service'' | Some d \<Rightarrow> d) in
      case req_items req of
        None \<Rightarrow> (Response 400 ''Invalid items data'', s)
      | Some [] \<Rightarrow> (Response 400 ''Invalid items data'', s)
      | Some its \<Rightarrow>
         (case req_totalAmount req of
            None \<Rightarrow> (Response 400 ''Invalid total amount'', s)
          | Some clientTotal \<Rightarrow>
             if clientTotal \<le> 0 then (Response 400 ''Invalid total amount'', s)
             else
              (case users s userId of
                 None \<Rightarrow> (Response 404 ''User not found'', s)
               | Some u \<Rightarrow>
                  (case price_items (menu s) its 0 [] of
                     Inl err \<Rightarrow> (Response 400 err, s)
                   | Inr (calculatedTotal, orderItems) \<Rightarrow>
                      if \<bar>calculatedTotal - clientTotal\<bar> > 0.01
                        then (Response 400 ''Total amount mismatch'', s)
                      else
                       (let taxV = real_of_int (round (clientTotal * 0.1));
                            fee = (if deliveryType = ''room_service'' then 50 else 0);
                            final = clientTotal + taxV + fee
                        in case req_customerInfo req of
                             None \<Rightarrow> (Response 500 ''Failed to create payment intent'', s)
                           | Some rn \<Rightarrow>
                              (let order =
                                    \<lparr>orderId = newOrderId, customerId = userId,
                                     customerInfo = \<lparr>ci_email = email u,
                                        ci_name = firstName u @ '' '' @ lastName u,
                                        ci_roomNumber = rn\<rparr>,
                                     items = orderItems, order_totalAmount = calculatedTotal,
                                     tax = taxV, deliveryFee = fee, finalAmount = final,
                                     order_status = ''pending'', paymentStatus = ''pending'',
                                     paymentIntentId = [], stripePaymentId = None,
                                     transactionId = None, deliveryType = deliveryType,
                                     estimatedDeliveryTime = Some (now + 30 * 60 * 1000),
                                     actualDeliveryTime = None, staffNotes = None,
                                     assignedStaff = None, order_createdAt = now,
                                     order_updatedAt = now\<rparr>
                               in case createPaymentIntent gw final of
                                    None \<Rightarrow> (Response 500 ''Failed to create payment intent'', s)
                                  | Some (intentId, clientSecret) \<Rightarrow>
                                      (Response 200 clientSecret,
                                       s\<lparr>orders := (orders s)(newOrderId \<mapsto>
                                            order_pre_save (order\<lparr>paymentIntentId := intentId\<rparr>))\<rparr>)))))))"

text \<open>\<^verbatim>\<open>POST /confirm-payment\<close>. \<open>txn\<close> is the transaction id the handler
  builds from the clock \<open>now\<close>.\<close>

definition find_order :: "shop \<Rightarrow> string \<Rightarrow> objectId \<Rightarrow> order_doc option" where
  "find_order s oid userId =
     (case orders s oid of
        None \<Rightarrow> None
      | Some order \<Rightarrow> if customerId order = userId then Some order else None)"

definition confirm_payment ::
  "gateway \<Rightarrow> date \<Rightarrow> string \<Rightarrow> objectId \<Rightarrow> string option \<Rightarrow> string option \<Rightarrow> shop
     \<Rightarrow> response \<times> shop" where
  "confirm_payment gw now txn userId intentId oid s =
     (case (intentId, oid) of
        (Some pid, Some oidv) \<Rightarrow>
          if pid = [] \<or> oidv = [] then (Response 400 ''Missing payment intent ID or order ID'', s)
          else
           (case find_order s oidv userId of
              None \<Rightarrow> (Response 404 ''Order not found or access denied'', s)
            | Some order \<Rightarrow>
                if \<not> confirmPayment gw pid
                then (Response 400 ''Payment verification failed'',
                      s\<lparr>orders := (orders s)(oidv \<mapsto>
                           order_save now order (order\<lparr>paymentStatus := ''failed''\<rparr>))\<rparr>)
                else (Response 200 ''Payment successful! Your order has been confirmed.'',
                      s\<lparr>orders := (orders s)(oidv \<mapsto> completePayment now pid txn order)\<rparr>))
      | _ \<Rightarrow> (Response 400 ''Missing payment intent ID or order ID'', s))"

text \<open>\<^verbatim>\<open>PUT /:orderId/status\<close>: the role check, the closed list of statuses, the
  lookup, \<^verbatim>\<open>updateStatus\<close>, then the staff fields and a second save.\<close>

definition validStatuses :: "string list" where
  "validStatuses = [''pending'', ''confirmed'', ''preparing'', ''ready'', ''out_for_delivery'',
                    ''delivered'', ''cancelled'']"

definition update_order_status ::
  "date \<Rightarrow> actor \<Rightarrow> string \<Rightarrow> string \<Rightarrow> string option \<Rightarrow> shop \<Rightarrow> response \<times> shop" where
  "update_order_status now usr oid newStatus notes s =
     (if actor_role usr \<notin> set [RoleAdmin, RoleStaff, RoleManager]
        then (Response 403 ''Access denied'', s)
      else if newStatus \<notin> set validStatuses then (Response 400 ''Invalid status'', s)
      else
        (case orders s oid of
           None \<Rightarrow> (Response 404 ''Order not found'', s)
         | Some order \<Rightarrow>
            (let o1 = updateStatus now newStatus order;
                 o2 = (case notes of
                         None \<Rightarrow> o1
                       | Some n \<Rightarrow> if n = [] then o1 else o1\<lparr>staffNotes := Some n\<rparr>);
                 o3 = order_save now o1 (o2\<lparr>assignedStaff := Some (actor_id usr)\<rparr>)
             in (Response 200 (''Order status updated to '' @ newStatus),
                 s\<lparr>orders := (orders s)(oid \<mapsto> o3)\<rparr>))))"

text \<open>\<^verbatim>\<open>DELETE /:orderId\<close>, the customer's own cancellation.\<close>

definition cancel_order :: "date \<Rightarrow> objectId \<Rightarrow> string \<Rightarrow> shop \<Rightarrow> response \<times> shop" where
  "cancel_order now userId oid s =
     (case find_order s oid userId of
        None \<Rightarrow> (Response 404 ''Order not found'', s)
      | Some order \<Rightarrow>
          if order_status order \<notin> set [''pending'', ''confirmed'']
            then (Response 400 ''Cannot cancel order in current status'', s)
          else (Response 200 ''Order cancelled successfully'',
                s\<lparr>orders := (orders s)(oid \<mapsto>
                     order_save now order
                       (order\<lparr>order_status := ''cancelled'', paymentStatus := ''refunded''\<rparr>))\<rparr>))"

section \<open>The order invariant and the recomputed total\<close>

text \<open>The invariant of a stored order: what the \<^verbatim>\<open>pre('save')\<close> hook
  establishes, and what makes a further run of the hook change nothing.\<close>

definition order_saved :: "order_doc \<Rightarrow> bool" where
  "order_saved this \<longleftrightarrow>
     list_all (\<lambda>item. subtotal item = item_price item * item_quantity item) (items this)
   \<and> order_totalAmount this = (\<Sum>item\<leftarrow>items this. subtotal item)
   \<and> finalAmount this = order_totalAmount this + tax this + deliveryFee this"

text \<open>The server-side total in the words of the specification: the sum, over the submitted
  items, of the catalog price times the quantity, to be compared with what the loop
  \<^const>\<open>price_items\<close> returns.\<close>

definition catalog_total :: "(objectId \<rightharpoonup> menu_item_doc) \<Rightarrow> cart_item list \<Rightarrow> number" where
  "catalog_total m its =
     (\<Sum>item\<leftarrow>its. case m (cart_id item) of
                      None \<Rightarrow> 0
                    | Some menuItem \<Rightarrow> mi_price menuItem * cart_quantity item)"

section \<open>Example data\<close>

definition scenario_booking :: booking_doc where
  "scenario_booking =
     \<lparr>bookingNumber = Some ''GH261103001'', user = 1, room = 1, checkInDate = 0,
      checkOutDate = 2 * ms_per_day, numberOfNights = 2,
      selectedPackage = None, additionalServices = [], foodOrders = [],
      pricing = \<lparr>roomRate = 2400, packagePrice = 0, servicesTotal = 0, foodTotal = 0,
                 taxAmount = 0, discountAmount = 0, totalAmount = 0\<rparr>,
      payment = \<lparr>pay_status = PaymentPending, paidAmount = 0, refundAmount = 0\<rparr>,
      specialRequests = [], status = Confirmed, actualCheckIn = None, actualCheckOut = None,
      updatedAt = 0\<rparr>"

definition scenario_room :: room_doc where
  "scenario_room = \<lparr>roomNumber = ''101'', room_price = 2400, isAvailable_flag = True,
                     room_updatedAt = 0\<rparr>"

definition scenario_hotel :: hotel where
  "scenario_hotel = \<lparr>rooms = [1 \<mapsto> scenario_room], packages = Map.empty, services = Map.empty,
      bookings = Map.empty\<rparr>"

definition scenario_req :: create_booking_req where
  "scenario_req = \<lparr>roomId = 1, req_checkInDate = 0, req_checkOutDate = 2 * ms_per_day,
     req_selectedPackage = None, req_additionalServices = [], req_specialRequests = []\<rparr>"

definition guest :: actor where
  "guest = \<lparr>actor_id = 1, actor_role = RoleUser\<rparr>"

definition booked_hotel :: "booking_status \<Rightarrow> hotel" where
  "booked_hotel st = scenario_hotel\<lparr>bookings := [5 \<mapsto> scenario_booking\<lparr>status := st\<rparr>]\<rparr>"

definition summer :: season where
  "summer = \<lparr>season_name = ''summer'', season_startDate = Some 100, season_endDate = Some 200,
              priceModifier = 3 / 2\<rparr>"

definition peak :: season where
  "peak = \<lparr>season_name = ''peak'', season_startDate = Some 150, season_endDate = Some 160,
            priceModifier = 2\<rparr>"

definition weekend_package :: package_doc where
  "weekend_package =
     \<lparr>pkg_name = ''weekend'', pkg_description = ''two nights'', pkg_price = 1000,
      discountPercentage = 10, seasons = [summer, peak],
      avail_startDate = Some 0, avail_endDate = Some (10 * ms_per_day),
      blackoutDates = [3 * ms_per_day + 5], isActive = True\<rparr>"

text \<open>A small menu, a customer, a stored order and a gateway whose verdict is a parameter.\<close>

definition tea :: menu_item_doc where
  "tea = \<lparr>mi_name = ''tea'', mi_price = 5, mi_category = 1\<rparr>"

definition thali :: menu_item_doc where
  "thali = \<lparr>mi_name = ''thali'', mi_price = 100, mi_category = 2\<rparr>"

definition example_shop :: shop where
  "example_shop =
     \<lparr>users = [1 \<mapsto> \<lparr>email = ''guest@example.org'', firstName = ''Asha'', lastName = ''Rao''\<rparr>],
      menu = [1 \<mapsto> tea, 2 \<mapsto> thali], orders = Map.empty\<rparr>"

definition example_gateway :: "bool \<Rightarrow> gateway" where
  "example_gateway ok =
     \<lparr>createPaymentIntent = (\<lambda>amount. Some (''pi_1'', ''secret_1'')), confirmPayment = (\<lambda>pid. ok)\<rparr>"

definition cart_request :: "objectId \<Rightarrow> number \<Rightarrow> number \<Rightarrow> intent_req" where
  "cart_request mid qty clientTotal =
     \<lparr>req_items = Some [\<lparr>cart_id = mid, cart_name = ''item'', cart_quantity = qty\<rparr>],
      req_totalAmount = Some clientTotal, req_customerInfo = Some (Some ''101''),
      req_deliveryType = None\<rparr>"

definition thali_order :: "string \<Rightarrow> order_doc" where
  "thali_order st =
     \<lparr>orderId = ''ORD-1'', customerId = 1,
      customerInfo = \<lparr>ci_email = ''guest@example.org'', ci_name = ''Asha Rao'',
                      ci_roomNumber = Some ''101''\<rparr>,
      items = [\<lparr>menuItemId = 2, item_name = ''thali'', item_price = 100, item_quantity = 2,
                item_category = 2, subtotal = 200\<rparr>],
      order_totalAmount = 200, tax = 20, deliveryFee = 50, finalAmount = 270,
      order_status = st, paymentStatus = ''pending'', paymentIntentId = ''pi_1'',
      stripePaymentId = None, transactionId = None, deliveryType = ''room_service'',
      estimatedDeliveryTime = Some 1800000, actualDeliveryTime = None, staffNotes = None,
      assignedStaff = None, order_createdAt = 0, order_updatedAt = 0\<rparr>"

definition order_shop :: "string \<Rightarrow> shop" where
  "order_shop st = example_shop\<lparr>orders := [''ORD-1'' \<mapsto> thali_order st]\<rparr>"

definition staff :: actor where
  "staff = \<lparr>actor_id = 2, actor_role = RoleStaff\<rparr>"

section \<open>Pricing\<close>

lemma foldl_plus_sum_list:
  "foldl (\<lambda>s x. s + f x) (a::real) xs = a + sum_list (map f xs)"
  by (induction xs arbitrary: a) simp_all

lemma js_or_zero [simp]: "js_or x 0 = x"
  by (simp add: js_or_def)

text \<open>
  C1. \<^verbatim>\<open>calculateTotal\<close> sets \<^verbatim>\<open>pricing.totalAmount\<close> to the room rate
  times the number of nights, plus the package price, plus the sum of price times quantity over
  the additional services, plus the sum of the totals of the food orders, all marked up by 18%
  tax, minus the discount amount. In particular, at a room rate of 2400 for 2 nights with no
  package, services, food orders or discount, the room total is 4800, the tax 864 and the total
  amount 5664.
\<close>

theorem calculateTotal_total:
  "totalAmount (pricing (calculateTotal b)) =
     (roomRate (pricing b) * of_int (numberOfNights b) + packagePrice (pricing b)
        + (\<Sum>s\<leftarrow>additionalServices b. svc_price s * svc_quantity s)
        + (\<Sum>f\<leftarrow>foodOrders b. fo_totalAmount f)) * (1 + 18 / 100)
       - discountAmount (pricing b)
   \<and> (roomRate (pricing b) = 2400 \<and> numberOfNights b = 2 \<and> packagePrice (pricing b) = 0
        \<and> additionalServices b = [] \<and> foodOrders b = [] \<and> discountAmount (pricing b) = 0
      \<longrightarrow> roomRate (pricing b) * of_int (numberOfNights b) = 4800
          \<and> taxAmount (pricing (calculateTotal b)) = 864
          \<and> totalAmount (pricing (calculateTotal b)) = 5664)"
proof -
  have t: "totalAmount (pricing (calculateTotal b)) =
     (roomRate (pricing b) * of_int (numberOfNights b) + packagePrice (pricing b)
        + (\<Sum>s\<leftarrow>additionalServices b. svc_price s * svc_quantity s)
        + (\<Sum>f\<leftarrow>foodOrders b. fo_totalAmount f)) * (1 + 18 / 100)
       - discountAmount (pricing b)"
    by (simp add: calculateTotal_def Let_def foldl_plus_sum_list algebra_simps)
  have x: "taxAmount (pricing (calculateTotal b)) =
     (roomRate (pricing b) * of_int (numberOfNights b) + packagePrice (pricing b)
        + (\<Sum>s\<leftarrow>additionalServices b. svc_price s * svc_quantity s)
        + (\<Sum>f\<leftarrow>foodOrders b. fo_totalAmount f)) * (18 / 100)"
    by (simp add: calculateTotal_def Let_def foldl_plus_sum_list algebra_simps)
  show ?thesis
    unfolding t x by simp
qed

theorem calculateTotal_total_witness:
  "taxAmount (pricing (calculateTotal scenario_booking)) = 864
   \<and> totalAmount (pricing (calculateTotal scenario_booking)) = 5664"
  using calculateTotal_total [of scenario_booking]
  by (simp add: scenario_booking_def)

section \<open>Booking creation and the availability counter\<close>



lemma draft_booking_refused: "booking_save_new today (draft_booking tz today usr req h r) = None"
  by (simp add: booking_save_new_def booking_validate_def draft_booking_def Let_def
        calculateTotal_def new_booking_def split: prod.splits)

text \<open>
  C2 states that creating a booking for a room whose \<^verbatim>\<open>available\<close> count is below 1
  fails with 400 \<^verbatim>\<open>Room is not available\<close> and changes nothing, and that for a room
  with a count of at least 1 it lowers the count by exactly 1. The handler does neither. The
  guard compares \<^verbatim>\<open>undefined\<close> with 1 and never fires, so no request is answered
  \<^verbatim>\<open>Room is not available\<close>; and no request changes the store: a request that
  passes the checks ends in 500, because \<^verbatim>\<open>save()\<close> rejects the new booking before
  the room is touched.
\<close>

theorem createBooking_never_reserves:
  "\<not> js_less (available r) 1
   \<and> fst (createBooking tz today newId usr req h) \<noteq> Response 400 ''Room is not available''
   \<and> snd (createBooking tz today newId usr req h) = h"
  by (simp add: createBooking_def Let_def available_def draft_booking_refused split: option.splits)

theorem createBooking_never_reserves_witness:
  "createBooking (\<lambda>t. 0) 0 7 guest scenario_req scenario_hotel
     = (Response 500 ''Failed to create booking'', scenario_hotel)"
  using createBooking_never_reserves [of scenario_room "\<lambda>t. 0" 0 7 guest scenario_req scenario_hotel]
  by (simp add: createBooking_def Let_def available_def draft_booking_refused scenario_hotel_def
        scenario_req_def ms_per_day_def)



section \<open>The booking lifecycle\<close>

text \<open>
  C3, as stated, fails: cancelling a confirmed booking sets its status to cancelled, but the
  payment sub-record keeps its status (here \<^verbatim>\<open>pending\<close>); it is not marked
  refunded.
\<close>

theorem cancelBooking_not_refunded:
  "fst (cancelBooking 9 guest 5 (booked_hotel Confirmed)) = Response 200 ''Booking cancelled successfully''
   \<and> map_option status (bookings (snd (cancelBooking 9 guest 5 (booked_hotel Confirmed))) 5) = Some Cancelled
   \<and> map_option (pay_status \<circ> payment) (bookings (snd (cancelBooking 9 guest 5 (booked_hotel Confirmed))) 5)
        = Some PaymentPending"
  by (simp add: cancelBooking_def booked_hotel_def scenario_hotel_def scenario_booking_def guest_def
        Let_def release_room_def booking_pre_save_def room_pre_save_def)

text \<open>
  C3, amended. For a booking whose status is confirmed or checked-in, cancelled by a caller who
  passes the access check, \<^verbatim>\<open>cancelBooking\<close> sets the status to cancelled and
  leaves the payment sub-record unchanged.
\<close>

theorem cancelBooking_cancels:
  assumes "bookings h bid = Some b"
    and "status b = Confirmed \<or> status b = CheckedIn"
    and "actor_role usr \<noteq> RoleUser \<or> user b = actor_id usr"
  shows "fst (cancelBooking now usr bid h) = Response 200 ''Booking cancelled successfully''
       \<and> bookings (snd (cancelBooking now usr bid h))
           = (bookings h)(bid \<mapsto> b\<lparr>status := Cancelled, updatedAt := now,
                 numberOfNights := nights_between (checkInDate b) (checkOutDate b)\<rparr>)
       \<and> map_option status (bookings (snd (cancelBooking now usr bid h)) bid) = Some Cancelled
       \<and> map_option payment (bookings (snd (cancelBooking now usr bid h)) bid) = Some (payment b)"
  using assms
  by (auto simp add: cancelBooking_def Let_def release_room_def booking_pre_save_def
        split: option.splits)

theorem cancelBooking_cancels_witness:
  "map_option status (bookings (snd (cancelBooking 9 guest 5 (booked_hotel CheckedIn))) 5) = Some Cancelled
   \<and> map_option payment (bookings (snd (cancelBooking 9 guest 5 (booked_hotel CheckedIn))) 5)
       = Some \<lparr>pay_status = PaymentPending, paidAmount = 0, refundAmount = 0\<rparr>"
  using cancelBooking_cancels [of "booked_hotel CheckedIn" 5 "scenario_booking\<lparr>status := CheckedIn\<rparr>"
          guest 9]
  by (simp add: booked_hotel_def scenario_hotel_def scenario_booking_def guest_def)

text \<open>
  The block of \<^verbatim>\<open>cancelBooking\<close> and \<^verbatim>\<open>checkOutBooking\<close> that is meant
  to restore the availability writes the room back with a new time stamp and nothing else.
\<close>

lemma release_room_writes_time_stamp:
  "rooms h rid = Some r \<Longrightarrow>
     rooms (release_room now rid h) = (rooms h)(rid \<mapsto> r\<lparr>room_updatedAt := now\<rparr>)"
  by (simp add: release_room_def room_pre_save_def)

text \<open>
  C4. For an existing booking, check-in succeeds exactly from confirmed and otherwise answers
  400; check-out succeeds exactly from checked-in and otherwise (so also from confirmed) answers
  400; cancel from checked-out fails (403 for a guest who does not own the booking, 400
  otherwise). Every failing case returns the store unchanged.
\<close>

theorem lifecycle_guards:
  assumes "bookings h bid = Some b"
  shows "(status b \<noteq> Confirmed \<longrightarrow>
            checkInBooking now bid h = (Response 400 ''Booking must be confirmed to check in'', h))
       \<and> (status b = Confirmed \<longrightarrow>
            fst (checkInBooking now bid h) = Response 200 ''Guest checked in successfully''
          \<and> map_option status (bookings (snd (checkInBooking now bid h)) bid) = Some CheckedIn)
       \<and> (status b \<noteq> CheckedIn \<longrightarrow>
            checkOutBooking now bid h = (Response 400 ''Guest must be checked in to check out'', h))
       \<and> (status b = CheckedIn \<longrightarrow>
            fst (checkOutBooking now bid h) = Response 200 ''Guest checked out successfully''
          \<and> map_option status (bookings (snd (checkOutBooking now bid h)) bid) = Some CheckedOut)
       \<and> (status b = CheckedOut \<longrightarrow>
            cancelBooking now usr bid h =
              (if actor_role usr = RoleUser \<and> user b \<noteq> actor_id usr
               then (Response 403 ''Access denied'', h)
               else (Response 400 ''Booking cannot be cancelled in current status'', h)))"
  using assms
  by (auto simp add: checkInBooking_def checkOutBooking_def cancelBooking_def Let_def
        release_room_def booking_pre_save_def split: option.splits)

theorem lifecycle_guards_witness:
  "checkInBooking 9 5 (booked_hotel Cancelled)
     = (Response 400 ''Booking must be confirmed to check in'', booked_hotel Cancelled)
   \<and> checkOutBooking 9 5 (booked_hotel Confirmed)
     = (Response 400 ''Guest must be checked in to check out'', booked_hotel Confirmed)
   \<and> cancelBooking 9 guest 5 (booked_hotel CheckedOut)
     = (Response 400 ''Booking cannot be cancelled in current status'', booked_hotel CheckedOut)
   \<and> map_option status (bookings (snd (checkInBooking 9 5 (booked_hotel Confirmed))) 5) = Some CheckedIn
   \<and> map_option status (bookings (snd (checkOutBooking 9 5 (booked_hotel CheckedIn))) 5) = Some CheckedOut"
  using lifecycle_guards [of "booked_hotel Cancelled" 5 "scenario_booking\<lparr>status := Cancelled\<rparr>" 9 guest]
    lifecycle_guards [of "booked_hotel Confirmed" 5 "scenario_booking\<lparr>status := Confirmed\<rparr>" 9 guest]
    lifecycle_guards [of "booked_hotel CheckedOut" 5 "scenario_booking\<lparr>status := CheckedOut\<rparr>" 9 guest]
    lifecycle_guards [of "booked_hotel CheckedIn" 5 "scenario_booking\<lparr>status := CheckedIn\<rparr>" 9 guest]
  by (simp add: booked_hotel_def scenario_hotel_def scenario_booking_def guest_def)

section \<open>Packages\<close>

lemma find_first_match:
  "(\<forall>x\<in>set pre. \<not> P x) \<Longrightarrow> P s \<Longrightarrow> find P (pre @ s # post) = Some s"
  by (induction pre) simp_all

lemma find_no_match: "(\<forall>x\<in>set xs. \<not> P x) \<Longrightarrow> find P xs = None"
  by (induction xs) simp_all

text \<open>
  C9. \<^verbatim>\<open>isAvailable\<close> holds exactly when the package is active, the date is not before
  a set start date, not after a set end date, and on the local calendar day of no blackout date;
  in particular a date on the day of a blackout date is unavailable wherever it lies in the
  window. \<^verbatim>\<open>getSeasonalPrice\<close> is the effective price, price times
  (1 - discount / 100), when no season's window contains the date, and the effective price times
  the multiplier of the first season, in stored order, whose window contains it otherwise.
\<close>

theorem package_rules:
  "(isAvailable tz p d \<longleftrightarrow>
       isActive p
     \<and> (case avail_startDate p of None \<Rightarrow> True | Some startDate \<Rightarrow> startDate \<le> d)
     \<and> (case avail_endDate p of None \<Rightarrow> True | Some endDate \<Rightarrow> d \<le> endDate)
     \<and> (\<forall>b\<in>set (blackoutDates p). toDateString tz b \<noteq> toDateString tz d))
   \<and> (b \<in> set (blackoutDates p) \<and> toDateString tz b = toDateString tz d \<longrightarrow> \<not> isAvailable tz p d)
   \<and> (in_season d x \<longleftrightarrow>
        (\<exists>a e. season_startDate x = Some a \<and> season_endDate x = Some e \<and> a \<le> d \<and> d \<le> e))
   \<and> ((\<forall>x\<in>set (seasons p). \<not> in_season d x) \<longrightarrow>
        getSeasonalPrice p d = pkg_price p * (1 - discountPercentage p / 100))
   \<and> (seasons p = pre @ x # post \<and> (\<forall>y\<in>set pre. \<not> in_season d y) \<and> in_season d x \<longrightarrow>
        getSeasonalPrice p d = pkg_price p * (1 - discountPercentage p / 100) * priceModifier x)"
proof -
  have av: "isAvailable tz p d \<longleftrightarrow>
       isActive p
     \<and> (case avail_startDate p of None \<Rightarrow> True | Some startDate \<Rightarrow> startDate \<le> d)
     \<and> (case avail_endDate p of None \<Rightarrow> True | Some endDate \<Rightarrow> d \<le> endDate)
     \<and> (\<forall>b\<in>set (blackoutDates p). toDateString tz b \<noteq> toDateString tz d)"
    by (auto simp add: isAvailable_def list_ex_iff split: option.splits)
  have bl: "b \<in> set (blackoutDates p) \<and> toDateString tz b = toDateString tz d \<longrightarrow> \<not> isAvailable tz p d"
    unfolding av by blast
  have ins: "in_season d x \<longleftrightarrow>
        (\<exists>a e. season_startDate x = Some a \<and> season_endDate x = Some e \<and> a \<le> d \<and> d \<le> e)"
    by (auto simp add: in_season_def split: option.splits)
  have none: "(\<forall>x\<in>set (seasons p). \<not> in_season d x) \<longrightarrow>
        getSeasonalPrice p d = pkg_price p * (1 - discountPercentage p / 100)"
    by (simp add: getSeasonalPrice_def Let_def effectivePrice_def find_no_match)
  have first: "seasons p = pre @ x # post \<and> (\<forall>y\<in>set pre. \<not> in_season d y) \<and> in_season d x \<longrightarrow>
        getSeasonalPrice p d = pkg_price p * (1 - discountPercentage p / 100) * priceModifier x"
    by (simp add: getSeasonalPrice_def Let_def effectivePrice_def find_first_match)
  from av bl ins none first show ?thesis by blast
qed

theorem package_rules_witness:
  "\<not> isAvailable (\<lambda>t. 0) weekend_package (3 * ms_per_day + 7000)
   \<and> isAvailable (\<lambda>t. 0) weekend_package (4 * ms_per_day)
   \<and> getSeasonalPrice weekend_package 50 = 900
   \<and> getSeasonalPrice weekend_package 155 = 1350"
  using
    package_rules [where tz = "\<lambda>t. 0" and p = weekend_package and d = "3 * ms_per_day + 7000"
      and b = "3 * ms_per_day + 5" and x = summer and pre = "[]" and post = "[peak]"]
    package_rules [where tz = "\<lambda>t. 0" and p = weekend_package and d = "4 * ms_per_day"
      and b = "3 * ms_per_day + 5" and x = summer and pre = "[]" and post = "[peak]"]
    package_rules [where tz = "\<lambda>t. 0" and p = weekend_package and d = 50
      and b = "3 * ms_per_day + 5" and x = summer and pre = "[]" and post = "[peak]"]
    package_rules [where tz = "\<lambda>t. 0" and p = weekend_package and d = 155
      and b = "3 * ms_per_day + 5" and x = summer and pre = "[]" and post = "[peak]"]
  by (simp add: weekend_package_def summer_def peak_def in_season_def toDateString_def ms_per_day_def)

section \<open>Orders\<close>

lemma order_pre_save_fixed: "order_saved this \<Longrightarrow> order_pre_save this = this"
proof -
  assume s: "order_saved this"
  then have m: "map (\<lambda>item. item\<lparr>subtotal := item_price item * item_quantity item\<rparr>) (items this) = items this"
    by (intro map_idI) (auto simp add: order_saved_def list_all_iff)
  from s show ?thesis
    by (simp add: order_pre_save_def Let_def m foldl_plus_sum_list order_saved_def)
qed

lemma order_pre_save_saved: "order_saved (order_pre_save this)"
  by (simp add: order_saved_def order_pre_save_def Let_def foldl_plus_sum_list list_all_iff)

lemma price_items_found:
  "(\<forall>item\<in>set its. m (cart_id item) \<noteq> None) \<Longrightarrow>
     \<exists>ois'. price_items m its acc ois = Inr (acc + catalog_total m its, ois')"
proof (induction its arbitrary: acc ois)
  case Nil
  then show ?case by (simp add: catalog_total_def)
next
  case (Cons item its)
  then obtain menuItem where f: "m (cart_id item) = Some menuItem" by auto
  from Cons.prems have all: "\<forall>item\<in>set its. m (cart_id item) \<noteq> None" by simp
  have step: "acc + catalog_total m (item # its)
      = acc + mi_price menuItem * cart_quantity item + catalog_total m its"
    using f by (simp add: catalog_total_def)
  have "\<exists>ois'. price_items m (item # its) acc ois
      = Inr (acc + mi_price menuItem * cart_quantity item + catalog_total m its, ois')"
    using f Cons.IH [OF all] by (simp add: Let_def)
  then show ?case
    by (simp only: step)
qed

lemma price_items_total:
  "price_items m its acc ois = Inr (c, ois') \<Longrightarrow> c = acc + catalog_total m its"
proof (induction its arbitrary: acc ois)
  case Nil
  then show ?case by (simp add: catalog_total_def)
next
  case (Cons item its)
  show ?case
  proof (cases "m (cart_id item)")
    case None
    with Cons.prems show ?thesis by simp
  next
    case (Some menuItem)
    with Cons.prems obtain ois1 where
      "price_items m its (acc + mi_price menuItem * cart_quantity item) ois1 = Inr (c, ois')"
      by (simp add: Let_def)
    from Cons.IH [OF this] Some show ?thesis
      by (simp add: catalog_total_def)
  qed
qed

lemma price_items_missing:
  "price_items m its acc ois = Inl e \<Longrightarrow> \<exists>item\<in>set its. m (cart_id item) = None"
proof (induction its arbitrary: acc ois)
  case Nil
  then show ?case by simp
next
  case (Cons item its)
  show ?case
  proof (cases "m (cart_id item)")
    case None
    then show ?thesis by simp
  next
    case (Some menuItem)
    with Cons.prems obtain acc1 ois1 where "price_items m its acc1 ois1 = Inl e"
      by (simp add: Let_def)
    from Cons.IH [OF this] show ?thesis by simp
  qed
qed

text \<open>
  C7. The route adds up the catalog prices of the submitted items and compares the sum with the
  client's total: whenever the two differ by more than 0.01 the request is rejected and the
  store is unchanged, so no order is created; when the items are all on the menu and the other
  checks pass, the answer is 400 with \<^verbatim>\<open>Total amount mismatch\<close>.
\<close>

theorem total_mismatch_rejected:
  assumes "req_items req = Some its" and "req_totalAmount req = Some t"
    and "\<bar>catalog_total (menu s) its - t\<bar> > 0.01"
  shows "snd (create_payment_intent gw now oid uid req s) = s
       \<and> code (fst (create_payment_intent gw now oid uid req s)) \<in> {400, 404}
       \<and> (its \<noteq> [] \<and> 0 < t \<and> users s uid \<noteq> None
            \<and> (\<forall>item\<in>set its. menu s (cart_id item) \<noteq> None) \<longrightarrow>
           (\<exists>orderItems. price_items (menu s) its 0 [] = Inr (catalog_total (menu s) its, orderItems))
         \<and> fst (create_payment_intent gw now oid uid req s) = Response 400 ''Total amount mismatch'')"
proof (cases "price_items (menu s) its 0 []")
  case (Inl e)
  then have "\<exists>item\<in>set its. menu s (cart_id item) = None"
    by (rule price_items_missing)
  with Inl assms show ?thesis
    by (auto simp add: create_payment_intent_def Let_def split: list.splits option.splits)
next
  case (Inr r)
  obtain c ois where r: "r = (c, ois)" by (cases r)
  with Inr have c: "c = catalog_total (menu s) its"
    using price_items_total [of "menu s" its 0 "[]" c ois] by simp
  from Inr r c assms show ?thesis
    by (auto simp add: create_payment_intent_def Let_def split: list.splits option.splits)
qed

theorem total_mismatch_rejected_witness:
  "create_payment_intent (example_gateway True) 0 ''ORD-1'' 1 (cart_request 2 2 150) example_shop
     = (Response 400 ''Total amount mismatch'', example_shop)"
  using total_mismatch_rejected [of "cart_request 2 2 150" _ 150 example_shop "example_gateway True"
      0 "''ORD-1''" 1]
  by (simp add: cart_request_def example_shop_def catalog_total_def thali_def
        prod_eq_iff)

text \<open>
  C6, as stated, fails on the tax: an order for one item of price 5, submitted with a client
  total of 4.995 (within the tolerance), is stored with \<^verbatim>\<open>totalAmount\<close> 5 and
  \<^verbatim>\<open>tax\<close> 0, while round(5 * 0.10) is 1.
\<close>

theorem order_tax_not_recomputed:
  "map_option order_totalAmount
      (orders (snd (create_payment_intent (example_gateway True) 0 ''ORD-1'' 1
                      (cart_request 1 1 (4995 / 1000)) example_shop)) ''ORD-1'') = Some 5
   \<and> map_option tax
      (orders (snd (create_payment_intent (example_gateway True) 0 ''ORD-1'' 1
                      (cart_request 1 1 (4995 / 1000)) example_shop)) ''ORD-1'') = Some 0
   \<and> real_of_int (round (5 * 0.10 :: real)) = 1"
  by (simp add: create_payment_intent_def cart_request_def example_shop_def example_gateway_def
        tea_def Let_def order_pre_save_def round_def)

text \<open>
  C6, amended. After every save each item's subtotal is its price times its quantity,
  \<^verbatim>\<open>totalAmount\<close> is the sum of the item subtotals and
  \<^verbatim>\<open>finalAmount\<close> is \<^verbatim>\<open>totalAmount + tax + deliveryFee\<close>; these three
  are recomputed from the item list on every persist, while \<^verbatim>\<open>tax\<close> and
  \<^verbatim>\<open>deliveryFee\<close> are not recomputed: the hook keeps the values the document
  already carries.
\<close>

theorem order_save_invariant:
  "list_all (\<lambda>item. subtotal item = item_price item * item_quantity item)
       (items (order_pre_save this))
   \<and> order_totalAmount (order_pre_save this) = (\<Sum>item\<leftarrow>items (order_pre_save this). subtotal item)
   \<and> order_totalAmount (order_pre_save this) = (\<Sum>item\<leftarrow>items this. item_price item * item_quantity item)
   \<and> finalAmount (order_pre_save this)
       = order_totalAmount (order_pre_save this) + tax (order_pre_save this)
          + deliveryFee (order_pre_save this)
   \<and> tax (order_pre_save this) = tax this
   \<and> deliveryFee (order_pre_save this) = deliveryFee this"
  by (simp add: order_pre_save_def Let_def foldl_plus_sum_list list_all_iff comp_def)

theorem order_save_invariant_witness:
  "order_totalAmount (order_pre_save ((thali_order ''pending'')\<lparr>order_totalAmount := 0, finalAmount := 0\<rparr>)) = 200
   \<and> finalAmount (order_pre_save ((thali_order ''pending'')\<lparr>order_totalAmount := 0, finalAmount := 0\<rparr>)) = 270"
  using order_save_invariant [of "(thali_order ''pending'')\<lparr>order_totalAmount := 0, finalAmount := 0\<rparr>"]
  by (simp add: thali_order_def)

lemma order_touch_eq:
  "(this\<lparr>paymentStatus := v\<rparr> = this) = (paymentStatus this = v)"
  by (cases this) auto

lemma order_save_status [simp]: "order_status (order_save now loaded x) = order_status x"
  by (simp add: order_save_def order_pre_save_def Let_def)

lemma order_save_paymentStatus [simp]: "paymentStatus (order_save now loaded x) = paymentStatus x"
  by (simp add: order_save_def order_pre_save_def Let_def)

lemma order_save_actualDeliveryTime [simp]:
  "actualDeliveryTime (order_save now loaded x) = actualDeliveryTime x"
  by (simp add: order_save_def order_pre_save_def Let_def)

text \<open>
  C5, as stated, fails on the frame of a failed confirmation: the save that records
  \<^verbatim>\<open>paymentStatus = failed\<close> on a stored order also advances its
  \<^verbatim>\<open>updatedAt\<close> time stamp, here from 0 to the time 9 of the request.
\<close>

theorem failed_payment_touches_updatedAt:
  "order_updatedAt (thali_order ''preparing'') = 0
   \<and> map_option order_updatedAt
        (orders (snd (confirm_payment (example_gateway False) 9 ''txn_9'' 1 (Some ''pi_1'')
                        (Some ''ORD-1'') (order_shop ''preparing''))) ''ORD-1'') = Some 9
   \<and> map_option paymentStatus
        (orders (snd (confirm_payment (example_gateway False) 9 ''txn_9'' 1 (Some ''pi_1'')
                        (Some ''ORD-1'') (order_shop ''preparing''))) ''ORD-1'') = Some ''failed''"
  by (simp add: confirm_payment_def find_order_def order_shop_def example_shop_def
        example_gateway_def thali_order_def order_save_def order_pre_save_def Let_def)

text \<open>
  C5, amended. A successful payment confirmation sets \<^verbatim>\<open>paymentStatus\<close> to
  completed and the lifecycle status to confirmed whatever it was before. A failed confirmation
  sets \<^verbatim>\<open>paymentStatus\<close> to failed and keeps the lifecycle status; on an order as
  the store holds it (one that satisfies the invariant every save establishes) it changes no
  field other than \<^verbatim>\<open>paymentStatus\<close> and, when the payment status was not failed
  already, the \<^verbatim>\<open>updatedAt\<close> time stamp, which becomes the time of the request.
  \<^verbatim>\<open>updateStatus\<close> stamps \<^verbatim>\<open>actualDeliveryTime\<close> exactly when the new
  status is delivered, and \<^verbatim>\<open>completePayment\<close> leaves the stamp as it was.
\<close>

theorem payment_confirmation:
  assumes "find_order s oid uid = Some this" and "pid \<noteq> []" and "oid \<noteq> []"
  shows "(confirmPayment gw pid \<longrightarrow>
            code (fst (confirm_payment gw now txn uid (Some pid) (Some oid) s)) = 200
          \<and> map_option paymentStatus
               (orders (snd (confirm_payment gw now txn uid (Some pid) (Some oid) s)) oid)
              = Some ''completed''
          \<and> map_option order_status
               (orders (snd (confirm_payment gw now txn uid (Some pid) (Some oid) s)) oid)
              = Some ''confirmed'')
       \<and> (\<not> confirmPayment gw pid \<longrightarrow>
            fst (confirm_payment gw now txn uid (Some pid) (Some oid) s)
              = Response 400 ''Payment verification failed''
          \<and> map_option paymentStatus
               (orders (snd (confirm_payment gw now txn uid (Some pid) (Some oid) s)) oid)
              = Some ''failed''
          \<and> map_option order_status
               (orders (snd (confirm_payment gw now txn uid (Some pid) (Some oid) s)) oid)
              = Some (order_status this)
          \<and> (order_saved this \<longrightarrow>
               snd (confirm_payment gw now txn uid (Some pid) (Some oid) s)
                 = s\<lparr>orders := (orders s)(oid \<mapsto>
                      this\<lparr>paymentStatus := ''failed'',
                           order_updatedAt :=
                             (if paymentStatus this = ''failed'' then order_updatedAt this
                              else now)\<rparr>)\<rparr>))
       \<and> order_status (updateStatus now st this) = st
       \<and> actualDeliveryTime (updateStatus now st this)
           = (if st = ''delivered'' then Some now else actualDeliveryTime this)
       \<and> actualDeliveryTime (completePayment now pid txn this) = actualDeliveryTime this"
proof -
  have fixed: "order_saved this \<Longrightarrow>
      order_save now this (this\<lparr>paymentStatus := ''failed''\<rparr>)
        = this\<lparr>paymentStatus := ''failed'',
               order_updatedAt :=
                 (if paymentStatus this = ''failed'' then order_updatedAt this else now)\<rparr>"
  proof -
    assume sv: "order_saved this"
    have "order_saved (this\<lparr>paymentStatus := ''failed''\<rparr>)"
      and "order_saved (this\<lparr>paymentStatus := ''failed'', order_updatedAt := now\<rparr>)"
      using sv by (simp_all add: order_saved_def)
    then have "order_pre_save (this\<lparr>paymentStatus := ''failed''\<rparr>) = this\<lparr>paymentStatus := ''failed''\<rparr>"
      and "order_pre_save (this\<lparr>paymentStatus := ''failed'', order_updatedAt := now\<rparr>)
             = this\<lparr>paymentStatus := ''failed'', order_updatedAt := now\<rparr>"
      by (simp_all only: order_pre_save_fixed)
    then show ?thesis
      by (simp add: order_save_def order_touch_eq)
  qed
  from assms fixed show ?thesis
    by (auto simp add: confirm_payment_def completePayment_def updateStatus_def Let_def)
qed

theorem payment_confirmation_witness:
  "map_option order_status
      (orders (snd (confirm_payment (example_gateway True) 9 ''txn_9'' 1 (Some ''pi_1'') (Some ''ORD-1'')
                      (order_shop ''delivered''))) ''ORD-1'') = Some ''confirmed''
   \<and> snd (confirm_payment (example_gateway False) 9 ''txn_9'' 1 (Some ''pi_1'') (Some ''ORD-1'')
            (order_shop ''preparing''))
       = (order_shop ''preparing'')
            \<lparr>orders := [''ORD-1'' \<mapsto> (thali_order ''preparing'')
                          \<lparr>paymentStatus := ''failed'', order_updatedAt := 9\<rparr>]\<rparr>"
  using
    payment_confirmation [of "order_shop ''delivered''" "''ORD-1''" 1 "thali_order ''delivered''"
      "''pi_1''" "example_gateway True" 9 "''txn_9''" "''ready''"]
    payment_confirmation [of "order_shop ''preparing''" "''ORD-1''" 1 "thali_order ''preparing''"
      "''pi_1''" "example_gateway False" 9 "''txn_9''" "''ready''"]
  by (simp add: order_shop_def example_shop_def thali_order_def example_gateway_def
        find_order_def order_saved_def)

text \<open>
  C10. For an existing order, a caller with the staff, manager or admin role and any target
  status of the accepted list, the status update succeeds and stores the target status whatever
  the current status is; so an order can be moved back, for example from delivered or cancelled
  to pending.
\<close>

theorem staff_status_update:
  assumes "orders s oid = Some this"
    and "actor_role usr \<in> {RoleAdmin, RoleStaff, RoleManager}"
    and "target \<in> set validStatuses"
  shows "fst (update_order_status now usr oid target notes s)
           = Response 200 (''Order status updated to '' @ target)
       \<and> map_option order_status (orders (snd (update_order_status now usr oid target notes s)) oid)
           = Some target"
  using assms
  by (auto simp add: update_order_status_def updateStatus_def Let_def split: option.splits)

theorem staff_status_update_witness:
  "map_option order_status
      (orders (snd (update_order_status 9 staff ''ORD-1'' ''pending'' None (order_shop ''delivered'')))
         ''ORD-1'') = Some ''pending''
   \<and> map_option order_status
      (orders (snd (update_order_status 9 staff ''ORD-1'' ''pending'' None (order_shop ''cancelled'')))
         ''ORD-1'') = Some ''pending''"
  using
    staff_status_update [of "order_shop ''delivered''" "''ORD-1''" "thali_order ''delivered''" staff
      "''pending''" 9 None]
    staff_status_update [of "order_shop ''cancelled''" "''ORD-1''" "thali_order ''cancelled''" staff
      "''pending''" 9 None]
  by (simp add: order_shop_def staff_def validStatuses_def)

end
